theory Spec2Isabelle
  imports Main "HOL-Library.AList"
begin

section \<open>Library calls used by http.go\<close>

text \<open>
  Go strings are byte sequences; they are modelled as \<open>string\<close> (a list of 8-bit
  characters). The functions of this section are the standard-library calls that
  \<^verbatim>\<open>http.go\<close> makes on strings; each is written for the arguments the source passes.
\<close>

type_synonym bytes = string

type_synonym error = string

text \<open>\<^verbatim>\<open>strings.Contains(s, ":")\<close>: the separator is a single byte.\<close>

definition Contains :: "string \<Rightarrow> char \<Rightarrow> bool" where
  "Contains s c = (c \<in> set s)"

text \<open>
  \<^verbatim>\<open>strings.Split(value, ",")\<close>: the pieces between the separators, in order; a string
  with n separators gives n + 1 pieces, empty ones included.
\<close>

fun Split :: "string \<Rightarrow> char \<Rightarrow> string list" where
  "Split [] sep = [[]]"
| "Split (c # cs) sep =
     (if c = sep then [] # Split cs sep
      else (case Split cs sep of [] \<Rightarrow> [[c]] | p # ps \<Rightarrow> (c # p) # ps))"

text \<open>
  \<^verbatim>\<open>strings.TrimSpace\<close> removes the leading and the trailing runes that
  \<^verbatim>\<open>unicode.IsSpace\<close> accepts. \<open>spaceRunes\<close> lists their UTF-8 encodings: the six ASCII
  ones, U+0085, U+00A0, U+1680, U+2000 to U+200A, U+2028, U+2029, U+202F, U+205F, U+3000.
\<close>

definition spaceRunes :: "string list" where
  "spaceRunes =
     [[CHR 0x09], [CHR 0x0A], [CHR 0x0B], [CHR 0x0C], [CHR 0x0D], [CHR 0x20],
      [CHR 0xC2, CHR 0x85], [CHR 0xC2, CHR 0xA0], [CHR 0xE1, CHR 0x9A, CHR 0x80],
      [CHR 0xE2, CHR 0x80, CHR 0x80], [CHR 0xE2, CHR 0x80, CHR 0x81],
      [CHR 0xE2, CHR 0x80, CHR 0x82], [CHR 0xE2, CHR 0x80, CHR 0x83],
      [CHR 0xE2, CHR 0x80, CHR 0x84], [CHR 0xE2, CHR 0x80, CHR 0x85],
      [CHR 0xE2, CHR 0x80, CHR 0x86], [CHR 0xE2, CHR 0x80, CHR 0x87],
      [CHR 0xE2, CHR 0x80, CHR 0x88], [CHR 0xE2, CHR 0x80, CHR 0x89],
      [CHR 0xE2, CHR 0x80, CHR 0x8A], [CHR 0xE2, CHR 0x80, CHR 0xA8],
      [CHR 0xE2, CHR 0x80, CHR 0xA9], [CHR 0xE2, CHR 0x80, CHR 0xAF],
      [CHR 0xE2, CHR 0x81, CHR 0x9F], [CHR 0xE3, CHR 0x80, CHR 0x80]]"

text \<open>
  Dropping, from the front, every rune whose encoding is in \<open>ws\<close>. Every encoding has
  at least one byte, so the rest after a match of \<open>w\<close> on \<open>c # cs\<close> is
  \<open>drop (length w - 1) cs\<close>.
\<close>

fun trimLeftRunes :: "string list \<Rightarrow> string \<Rightarrow> string" where
  "trimLeftRunes ws [] = []"
| "trimLeftRunes ws (c # cs) =
     (case find (\<lambda>w. take (length w) (c # cs) = w) ws of
        None \<Rightarrow> c # cs
      | Some w \<Rightarrow> trimLeftRunes ws (drop (length w - 1) cs))"

definition TrimSpace :: "string \<Rightarrow> string" where
  "TrimSpace s = rev (trimLeftRunes (map rev spaceRunes) (rev (trimLeftRunes spaceRunes s)))"

subsection \<open>The token pattern\<close>

text \<open>
  \<^verbatim>\<open>tokenPatternRegex\<close> is one character class, repeated at least once, between
  \<^verbatim>\<open>^\<close> and \<^verbatim>\<open>$\<close> (without the multi-line flag: the whole text). The class is written
  in the source as \<^verbatim>\<open>\d\<close>, \<^verbatim>\<open>\w\<close> and fifteen punctuation characters, most of them escaped.
  A byte above 0x7F is never in the class, so matching bytes is matching runes.
\<close>

definition between :: "char \<Rightarrow> char \<Rightarrow> char \<Rightarrow> bool" where
  "between lo hi c = ((of_char lo :: nat) \<le> of_char c \<and> (of_char c :: nat) \<le> of_char hi)"

definition perl_d :: "char \<Rightarrow> bool" where
  "perl_d c = between (CHR ''0'') (CHR ''9'') c"

definition perl_w :: "char \<Rightarrow> bool" where
  "perl_w c = (between (CHR ''0'') (CHR ''9'') c \<or> between (CHR ''A'') (CHR ''Z'') c
     \<or> between (CHR ''a'') (CHR ''z'') c \<or> c = CHR ''_'')"

definition tokenPatternClass :: "char \<Rightarrow> bool" where
  "tokenPatternClass c = (perl_d c \<or> perl_w c \<or> c \<in> set ''!#$%&'*+-.^_|~`'')"

definition tokenPattern_MatchString :: "string \<Rightarrow> bool" where
  "tokenPattern_MatchString s = (s \<noteq> [] \<and> list_all tokenPatternClass s)"

text \<open>
  The grammar as the specification writes it:
  \<^verbatim>\<open>^[A-Za-z0-9!#$%&'*+\-.^_`|~]+$\<close>.
\<close>

definition specTokenChar :: "char \<Rightarrow> bool" where
  "specTokenChar c = (between (CHR ''A'') (CHR ''Z'') c \<or> between (CHR ''a'') (CHR ''z'') c
     \<or> between (CHR ''0'') (CHR ''9'') c \<or> c \<in> set ''!#$%&'*+-.^_`|~'')"

definition specToken :: "string \<Rightarrow> bool" where
  "specToken s = (s \<noteq> [] \<and> list_all specTokenChar s)"

section \<open>Header collections\<close>

text \<open>
  \<^verbatim>\<open>http.Header\<close> is \<^verbatim>\<open>map[string][]string\<close>. It is modelled as an association
  list, whose order is the order in which \<^verbatim>\<open>range\<close> visits the entries (Go leaves that
  order open; the theorems hold for every list). \<open>index h k\<close> is \<^verbatim>\<open>h[k]\<close>: the empty
  slice for a missing key.
\<close>

type_synonym Header = "(string \<times> string list) list"

definition index :: "Header \<Rightarrow> string \<Rightarrow> string list" where
  "index h k = (case map_of h k of None \<Rightarrow> [] | Some vs \<Rightarrow> vs)"

text \<open>
  \<^verbatim>\<open>Header.Add(key, value)\<close> appends to the values stored under the canonical form of
  the key (\<^verbatim>\<open>textproto.CanonicalMIMEHeaderKey\<close>): a key made of token bytes only gets an
  upper-case letter first and after each dash and lower-case letters elsewhere; any other
  key is left as it is.
\<close>

definition validHeaderFieldByte :: "char \<Rightarrow> bool" where
  "validHeaderFieldByte c = (between (CHR ''0'') (CHR ''9'') c \<or> between (CHR ''a'') (CHR ''z'') c
     \<or> between (CHR ''A'') (CHR ''Z'') c \<or> c \<in> set ''!#$%&'*+-.^_`|~'')"

definition toLower :: nat where
  "toLower = 32"

fun canonicalize :: "bool \<Rightarrow> string \<Rightarrow> string" where
  "canonicalize upper [] = []"
| "canonicalize upper (c # cs) =
     (let c' = (if upper \<and> between (CHR ''a'') (CHR ''z'') c then char_of (of_char c - toLower)
                else if \<not> upper \<and> between (CHR ''A'') (CHR ''Z'') c then char_of (of_char c + toLower)
                else c)
      in c' # canonicalize (c' = CHR ''-'') cs)"

definition CanonicalMIMEHeaderKey :: "string \<Rightarrow> string" where
  "CanonicalMIMEHeaderKey s = (if list_all validHeaderFieldByte s then canonicalize True s else s)"

definition Add :: "Header \<Rightarrow> string \<Rightarrow> string \<Rightarrow> Header" where
  "Add h key v = (let k = CanonicalMIMEHeaderKey key in AList.update k (index h k @ [v]) h)"

section \<open>The header sanitizer\<close>

definition connectionHeader :: string where
  "connectionHeader = ''Connection''"

definition hopByHopHeaders :: "string set" where
  "hopByHopHeaders =
     {connectionHeader, ''Keep-Alive'', ''Proxy-Authorization'', ''Proxy-Authentication'',
      ''TE'', ''Trailer'', ''Transfer-Encoding'', ''Upgrade''}"

text \<open>
  \<^verbatim>\<open>processConnectionHdr\<close>: the loop over the parts carries the drop set (the map the
  caller passed in, mutated in place) and the slice \<^verbatim>\<open>bad\<close>, which the function returns.
\<close>

fun processParts :: "string set \<Rightarrow> string list \<Rightarrow> string list \<Rightarrow> string set \<times> string list" where
  "processParts dropHdrs bad [] = (dropHdrs, bad)"
| "processParts dropHdrs bad (part # parts) =
     (let header = TrimSpace part
      in if tokenPattern_MatchString header
         then processParts (insert header dropHdrs) bad parts
         else processParts dropHdrs (bad @ [header]) parts)"

definition processConnectionHdr :: "string set \<Rightarrow> string \<Rightarrow> string set \<times> string list" where
  "processConnectionHdr dropHdrs value = processParts dropHdrs [] (Split value (CHR '',''))"

text \<open>
  \<^verbatim>\<open>copyHeaders\<close>, first loop: the drop set after every value of the Connection header
  has been processed (the returned \<^verbatim>\<open>bad\<close> is discarded by the caller).
\<close>

definition dynDropHdrs :: "Header \<Rightarrow> string set" where
  "dynDropHdrs src =
     (case map_of src connectionHeader of
        None \<Rightarrow> {}
      | Some vals \<Rightarrow> foldl (\<lambda>d v. fst (processConnectionHdr d v)) {} vals)"

text \<open>\<^verbatim>\<open>copyHeaders\<close>, second loop: over the entries of \<^verbatim>\<open>src\<close>.\<close>

fun copyLoop :: "string set \<Rightarrow> Header \<Rightarrow> (string \<times> string list) list \<Rightarrow> Header" where
  "copyLoop dyn dst [] = dst"
| "copyLoop dyn dst ((k, vals) # rest) =
     (if k \<in> hopByHopHeaders then copyLoop dyn dst rest
      else if k \<in> dyn then copyLoop dyn dst rest
      else copyLoop dyn (foldl (\<lambda>d v. Add d k v) dst vals) rest)"

definition copyHeaders :: "Header \<Rightarrow> Header \<Rightarrow> Header" where
  "copyHeaders dst src = copyLoop (dynDropHdrs src) dst src"

text \<open>
  The dynamic drop set in the specification's words: split each value of the Connection
  header on commas, trim each piece, keep the pieces that match the token grammar.
\<close>

definition specTokens :: "Header \<Rightarrow> string list" where
  "specTokens src =
     map TrimSpace (concat (map (\<lambda>v. Split v (CHR '','')) (index src ''Connection'')))"

definition specDropSet :: "Header \<Rightarrow> string set" where
  "specDropSet src = set (filter specToken (specTokens src))"

section \<open>The handlers\<close>

text \<open>
  A handler talks to the client, to the upstream server and to the libraries. What these
  answer is not decided by the handler: it is the \<open>World\<close> of one call, one field for each
  call that can fail, with the error it returns (\<open>None\<close> for \<^verbatim>\<open>nil\<close>). \<open>ParseAddr\<close> is
  the destination encoder \<^verbatim>\<open>socks.ParseAddr\<close>, which \<^verbatim>\<open>http.go\<close> imports. What the
  handler does is the list of the calls it makes, in order, and the error it returns.
  Calls to the logger are left out.
\<close>

record Request =
  Method :: string
  Host :: string
  RequestURI :: string
  URLHost :: string
  Header :: Header

record ProxyRequest =
  proxyReq_Method :: string
  proxyReq_URL :: string
  proxyReq_Body :: bytes
  proxyReq_Header :: Header

record Response =
  StatusCode :: nat
  ResponseHeader :: Header

record HTTPProxyHandler =
  server :: string
  UserAgent :: string

record World =
  ParseAddr :: "string \<Rightarrow> bytes"
  ReadAll_result :: "bytes \<times> error option"
  Dial_result :: "error option"
  WriteTarget_result :: "error option"
  NewRequest_result :: "error option"
  WriteRequest_result :: "error option"
  ReadResponse_result :: "error + Response"
  Copy_result :: "error option"
  Hijack_result :: "error option"
  WriteAck_result :: "error option"

datatype event =
    ReadAll
  | Dial
  | RespWriteHeader nat
  | RcWrite bytes
  | NewRequest
  | ProxyReqWrite ProxyRequest
  | ReadResponse
  | RespHeader Header
  | Copy
  | CloseRespBody
  | RcClose
  | ReqBodyClose
  | Hijack
  | ClientConnWrite bytes
  | Relay
  | ClientConnClose

definition StatusInternalServerError :: nat where
  "StatusInternalServerError = 500"

text \<open>
  \<^verbatim>\<open>getConn\<close>: the dial; the cork and the \<^verbatim>\<open>shadow\<close> wrapper decorate the connection
  and cannot fail.
\<close>

definition getConn :: "World \<Rightarrow> event list \<times> error option" where
  "getConn w = ([Dial], Dial_result w)"

text \<open>
  \<^verbatim>\<open>processRequest\<close>. \<open>resp\<close> is the header collection of the client response on
  entry. \<open>defers\<close> is the stack of deferred calls, run on every return. The variable
  \<open>err\<close> is bound twice, as in the source: the second binding hides the first.
\<close>

definition processRequest ::
    "HTTPProxyHandler \<Rightarrow> World \<Rightarrow> Header \<Rightarrow> Request \<Rightarrow> event list \<times> error option" where
  "processRequest h w resp req =
     (let (body, err) = ReadAll_result w;
          defers = [ReqBodyClose];
          (dial, err) = getConn w;
          t = ReadAll # dial
      in case err of
           Some e \<Rightarrow> (t @ [RespWriteHeader StatusInternalServerError] @ defers, Some e)
         | None \<Rightarrow>
           (let defers = RcClose # defers;
                targetHost = (if \<not> Contains (Host req) (CHR '':'') then Host req @ '':80''
                              else Host req);
                tgt = ParseAddr w targetHost;
                t = t @ [RcWrite tgt]
            in case WriteTarget_result w of
                 Some e \<Rightarrow> (t @ defers, Some e)
               | None \<Rightarrow>
                 (let t = t @ [NewRequest]
                  in case NewRequest_result w of
                       Some e \<Rightarrow> (t @ [RespWriteHeader StatusInternalServerError] @ defers, Some e)
                     | None \<Rightarrow>
                       (let proxyReq = \<lparr>proxyReq_Method = Method req,
                                         proxyReq_URL = RequestURI req,
                                         proxyReq_Body = body,
                                         proxyReq_Header = []\<rparr>;
                            proxyReq = proxyReq\<lparr>proxyReq_Header :=
                                         copyHeaders (proxyReq_Header proxyReq) (Header req)\<rparr>;
                            proxyReq = (if UserAgent h \<noteq> []
                                        then proxyReq\<lparr>proxyReq_Header :=
                                               Add (proxyReq_Header proxyReq) ''User-Agent'' (UserAgent h)\<rparr>
                                        else proxyReq);
                            t = t @ [ProxyReqWrite proxyReq]
                        in case WriteRequest_result w of
                             Some e \<Rightarrow> (t @ [RespWriteHeader StatusInternalServerError] @ defers, Some e)
                           | None \<Rightarrow>
                             (let t = t @ [ReadResponse]
                              in case ReadResponse_result w of
                                   Inl e \<Rightarrow>
                                     (t @ [RespWriteHeader StatusInternalServerError] @ defers, Some e)
                                 | Inr proxyResp \<Rightarrow>
                                     (t @ [RespHeader (copyHeaders resp (ResponseHeader proxyResp)),
                                           RespWriteHeader (StatusCode proxyResp),
                                           Copy, CloseRespBody] @ defers,
                                      Copy_result w))))))"

definition acknowledgment :: bytes where
  "acknowledgment = ''HTTP/1.0 200 Connection established'' @ [CHR 0x0D, CHR 0x0A, CHR 0x0D, CHR 0x0A]"

text \<open>
  \<^verbatim>\<open>handleConnect\<close>. \<open>Relay\<close> stands for the lines from \<^verbatim>\<open>wg.Add(2)\<close> to
  \<^verbatim>\<open>wg.Wait()\<close>; the section on the relay looks inside.
\<close>

definition handleConnect ::
    "HTTPProxyHandler \<Rightarrow> World \<Rightarrow> Header \<Rightarrow> Request \<Rightarrow> event list \<times> error option" where
  "handleConnect h w resp req =
     (let defers = [ReqBodyClose];
          (dial, err) = getConn w;
          t = dial
      in case err of
           Some e \<Rightarrow> (t @ [RespWriteHeader StatusInternalServerError] @ defers, Some e)
         | None \<Rightarrow>
           (let defers = RcClose # defers;
                tgt = ParseAddr w (URLHost req);
                t = t @ [RcWrite tgt]
            in case WriteTarget_result w of
                 Some e \<Rightarrow> (t @ defers, Some e)
               | None \<Rightarrow>
                 (let t = t @ [Hijack]
                  in case Hijack_result w of
                       Some e \<Rightarrow> (t @ [RespWriteHeader StatusInternalServerError] @ defers, Some e)
                     | None \<Rightarrow>
                       (let defers = ClientConnClose # defers;
                            t = t @ [ClientConnWrite acknowledgment]
                        in case WriteAck_result w of
                             Some e \<Rightarrow>
                               (t @ [RespWriteHeader StatusInternalServerError] @ defers, Some e)
                           | None \<Rightarrow> (t @ [Relay] @ defers, None)))))"

text \<open>\<^verbatim>\<open>ServeHTTP\<close> chooses the handler by the method; it logs the error, if any.\<close>

definition ServeHTTP ::
    "HTTPProxyHandler \<Rightarrow> World \<Rightarrow> Header \<Rightarrow> Request \<Rightarrow> event list \<times> error option" where
  "ServeHTTP h w resp req =
     (if Method req = ''CONNECT'' then handleConnect h w resp req
      else processRequest h w resp req)"

subsection \<open>Reading a trace\<close>

text \<open>The byte slices written to the raw client connection, in order.\<close>

fun clientConnWrites :: "event list \<Rightarrow> bytes list" where
  "clientConnWrites [] = []"
| "clientConnWrites (ClientConnWrite b # t) = b # clientConnWrites t"
| "clientConnWrites (e # t) = clientConnWrites t"

text \<open>The part of a trace before the relay starts (all of it when it never starts).\<close>

fun beforeRelay :: "event list \<Rightarrow> event list" where
  "beforeRelay [] = []"
| "beforeRelay (Relay # t) = []"
| "beforeRelay (e # t) = e # beforeRelay t"

text \<open>The part of a trace after the call that hijacks the client connection.\<close>

fun afterHijack :: "event list \<Rightarrow> event list" where
  "afterHijack [] = []"
| "afterHijack (Hijack # t) = t"
| "afterHijack (e # t) = afterHijack t"

text \<open>The calls on the HTTP response object \<^verbatim>\<open>resp\<close>, the hijack apart.\<close>

fun usesResponse :: "event \<Rightarrow> bool" where
  "usesResponse (RespWriteHeader c) = True"
| "usesResponse (RespHeader hdr) = True"
| "usesResponse e = False"

text \<open>
  The calls that write to the upstream connection \<^verbatim>\<open>rc\<close>: \<^verbatim>\<open>rc.Write\<close>,
  \<^verbatim>\<open>proxyReq.Write(rc)\<close>, and the relay, whose first transfer copies to \<^verbatim>\<open>rc\<close>.
\<close>

fun writesUpstream :: "event \<Rightarrow> bool" where
  "writesUpstream (RcWrite b) = True"
| "writesUpstream (ProxyReqWrite p) = True"
| "writesUpstream Relay = True"
| "writesUpstream e = False"

fun isRcWrite :: "event \<Rightarrow> bool" where
  "isRcWrite (RcWrite b) = True"
| "isRcWrite e = False"

text \<open>
  \<open>tokenFirstAndOnce tgt t\<close>: the first write to the upstream connection in \<open>t\<close> is
  \<^verbatim>\<open>rc.Write(tgt)\<close>, and no later call is an \<^verbatim>\<open>rc.Write\<close>.
\<close>

definition tokenFirstAndOnce :: "bytes \<Rightarrow> event list \<Rightarrow> bool" where
  "tokenFirstAndOnce tgt t =
     (case filter writesUpstream t of
        [] \<Rightarrow> False
      | e # rest \<Rightarrow> e = RcWrite tgt \<and> filter isRcWrite rest = [])"

text \<open>The requests written to the upstream connection, and the status codes written to the client.\<close>

fun proxyRequests :: "event list \<Rightarrow> ProxyRequest list" where
  "proxyRequests [] = []"
| "proxyRequests (ProxyReqWrite p # t) = p # proxyRequests t"
| "proxyRequests (e # t) = proxyRequests t"

fun statusCodes :: "event list \<Rightarrow> nat list" where
  "statusCodes [] = []"
| "statusCodes (RespWriteHeader c # t) = c # statusCodes t"
| "statusCodes (e # t) = statusCodes t"

text \<open>
  The values under a name in the header collection of each request object, as it is when
  the handler calls \<^verbatim>\<open>proxyReq.Write\<close>; and the body of each.
\<close>

definition proxyReqHeaderValues :: "string \<Rightarrow> event list \<Rightarrow> string list list" where
  "proxyReqHeaderValues name t = map (\<lambda>p. index (proxyReq_Header p) name) (proxyRequests t)"

definition sentBodies :: "event list \<Rightarrow> bytes list" where
  "sentBodies t = map proxyReq_Body (proxyRequests t)"

text \<open>
  What \<^verbatim>\<open>proxyReq.Write\<close> writes as the user agent. \<^verbatim>\<open>Request.Write\<close> of
  \<^verbatim>\<open>net/http\<close> writes one User-Agent line, and leaves the header out of the lines it
  writes for the rest of the collection: the value of the line is
  \<^verbatim>\<open>Header.Get("User-Agent")\<close>, the first value, when the collection has the key, and
  the default of the library when it has not; no line is written for an empty value.
  \<open>writeUserAgent\<close> is the value chosen (\<open>None\<close>: no line).
\<close>

definition has :: "Header \<Rightarrow> string \<Rightarrow> bool" where
  "has h key = (map_of h key \<noteq> None)"

definition Get :: "Header \<Rightarrow> string \<Rightarrow> string" where
  "Get h key = (case index h (CanonicalMIMEHeaderKey key) of [] \<Rightarrow> [] | v # vs \<Rightarrow> v)"

definition defaultUserAgent :: string where
  "defaultUserAgent = ''Go-http-client/1.1''"

definition writeUserAgent :: "Header \<Rightarrow> string option" where
  "writeUserAgent h =
     (let userAgent = (if has h ''User-Agent'' then Get h ''User-Agent'' else defaultUserAgent)
      in if userAgent \<noteq> [] then Some userAgent else None)"

definition sentUserAgent :: "event list \<Rightarrow> string option list" where
  "sentUserAgent t = map (\<lambda>p. writeUserAgent (proxyReq_Header p)) (proxyRequests t)"

section \<open>The relay\<close>

text \<open>
  The last lines of \<^verbatim>\<open>handleConnect\<close> and the function \<^verbatim>\<open>transfer\<close> run as three
  tasks: the handler, the transfer from the client to the upstream connection
  (\<^verbatim>\<open>transfer(&wg, rc, clientInput)\<close>) and the transfer back
  (\<^verbatim>\<open>transfer(&wg, clientConn, rc)\<close>). Each has a program counter; \<open>counter\<close> is the
  counter of the wait group. A schedule is the list of the tasks in the order in which
  they take their steps; a transfer's step carries the error \<^verbatim>\<open>io.Copy\<close> returns if this
  is the step at which it returns.
\<close>

datatype main_pc = AtAdd | AtGoUp | AtGoDown | AtWait | Returned "error option"

datatype transfer_pc = NotStarted | Copying | CopyReturned "error option" | Finished

record relay =
  pc_main :: main_pc
  pc_up :: transfer_pc
  pc_down :: transfer_pc
  counter :: int

datatype task = MainTask | UpTask "error option" | DownTask "error option"

definition relay_init :: relay where
  "relay_init = \<lparr>pc_main = AtAdd, pc_up = NotStarted, pc_down = NotStarted, counter = 0\<rparr>"

text \<open>
  One step of a task; \<open>None\<close> when the task cannot take a step: it has not started, it has
  ended, or it is the handler blocked in \<^verbatim>\<open>wg.Wait()\<close>.
\<close>

fun transfer :: "transfer_pc \<Rightarrow> error option \<Rightarrow> (transfer_pc \<times> int) option" where
  "transfer NotStarted r = None"
| "transfer Copying r = Some (CopyReturned r, 0)"
| "transfer (CopyReturned r') r = Some (Finished, - 1)"
| "transfer Finished r = None"

fun step :: "relay \<Rightarrow> task \<Rightarrow> relay option" where
  "step s MainTask =
     (case pc_main s of
        AtAdd \<Rightarrow> Some (s\<lparr>pc_main := AtGoUp, counter := counter s + 2\<rparr>)
      | AtGoUp \<Rightarrow> Some (s\<lparr>pc_main := AtGoDown, pc_up := Copying\<rparr>)
      | AtGoDown \<Rightarrow> Some (s\<lparr>pc_main := AtWait, pc_down := Copying\<rparr>)
      | AtWait \<Rightarrow> (if counter s = 0 then Some (s\<lparr>pc_main := Returned None\<rparr>) else None)
      | Returned r \<Rightarrow> None)"
| "step s (UpTask r) =
     (case transfer (pc_up s) r of
        None \<Rightarrow> None
      | Some (pc, d) \<Rightarrow> Some (s\<lparr>pc_up := pc, counter := counter s + d\<rparr>))"
| "step s (DownTask r) =
     (case transfer (pc_down s) r of
        None \<Rightarrow> None
      | Some (pc, d) \<Rightarrow> Some (s\<lparr>pc_down := pc, counter := counter s + d\<rparr>))"

fun run :: "relay \<Rightarrow> task list \<Rightarrow> relay option" where
  "run s [] = Some s"
| "run s (a # as) = (case step s a of None \<Rightarrow> None | Some s' \<Rightarrow> run s' as)"

text \<open>
  What holds of every state a schedule reaches: the counter is the number of transfers
  that were added and have not called \<^verbatim>\<open>wg.Done()\<close>.
\<close>

definition unfinished :: "transfer_pc \<Rightarrow> int" where
  "unfinished pc = (if pc = Finished then 0 else 1)"

definition relay_inv :: "relay \<Rightarrow> bool" where
  "relay_inv s =
     (case pc_main s of
        AtAdd \<Rightarrow> pc_up s = NotStarted \<and> pc_down s = NotStarted \<and> counter s = 0
      | AtGoUp \<Rightarrow> pc_up s = NotStarted \<and> pc_down s = NotStarted \<and> counter s = 2
      | AtGoDown \<Rightarrow> pc_up s \<noteq> NotStarted \<and> pc_down s = NotStarted
                    \<and> counter s = unfinished (pc_up s) + 1
      | AtWait \<Rightarrow> pc_up s \<noteq> NotStarted \<and> pc_down s \<noteq> NotStarted
                    \<and> counter s = unfinished (pc_up s) + unfinished (pc_down s)
      | Returned r \<Rightarrow> pc_up s = Finished \<and> pc_down s = Finished \<and> counter s = 0 \<and> r = None)"

section \<open>Examples\<close>

text \<open>
  A world in which every call succeeds; the encoder of the example is the identity. The
  other worlds differ from it in one answer.
\<close>

definition exampleHandler :: HTTPProxyHandler where
  "exampleHandler = \<lparr>server = ''127.0.0.1:8488'', UserAgent = ''fixed-agent''\<rparr>"

definition exampleResponse :: Response where
  "exampleResponse = \<lparr>StatusCode = 200, ResponseHeader = [(''Content-Type'', [''text/html''])]\<rparr>"

definition exampleWorld :: World where
  "exampleWorld =
     \<lparr>ParseAddr = (\<lambda>s. s), ReadAll_result = (''hello'', None), Dial_result = None,
      WriteTarget_result = None, NewRequest_result = None, WriteRequest_result = None,
      ReadResponse_result = Inr exampleResponse, Copy_result = None, Hijack_result = None,
      WriteAck_result = None\<rparr>"

definition exampleRequest :: Request where
  "exampleRequest =
     \<lparr>Method = ''POST'', Host = ''example.com'', RequestURI = ''http://example.com/'',
      URLHost = ''example.com'', Header = [(''User-Agent'', [''curl/8.0''])]\<rparr>"

definition exampleConnect :: Request where
  "exampleConnect =
     \<lparr>Method = ''CONNECT'', Host = ''example.com:443'', RequestURI = ''example.com:443'',
      URLHost = ''example.com:443'', Header = []\<rparr>"

definition exampleHeader :: Header where
  "exampleHeader =
     [(''Connection'', [''X-Foo, bad tok, Y'']), (''X-Foo'', [''1'']), (''Y'', [''2'', ''3'']),
      (''Accept'', [''4'', ''5'']), (''Upgrade'', [''h2''])]"

section \<open>The header sanitizer: what is copied\<close>

lemma index_Add:
  "index (Add h k v) name =
     (if CanonicalMIMEHeaderKey k = name then index h name @ [v] else index h name)"
  by (simp add: Add_def index_def Let_def update_conv')

lemma index_foldl_Add:
  "index (foldl (\<lambda>d v. Add d k v) h vals) name =
     (if CanonicalMIMEHeaderKey k = name then index h name @ vals else index h name)"
  by (induction vals arbitrary: h) (simp_all add: index_Add)

lemma index_copyLoop:
  "index (copyLoop dyn dst src) name =
     index dst name @
     concat (map snd (filter (\<lambda>(k, vals). CanonicalMIMEHeaderKey k = name \<and>
                                 k \<notin> hopByHopHeaders \<and> k \<notin> dyn) src))"
  by (induction dyn dst src rule: copyLoop.induct) (simp_all add: index_foldl_Add)

text \<open>
  Claim C1. After \<open>copyHeaders dst src\<close>, the values that \<open>dst\<close> holds under any name are
  the values it held before, followed by all the values, in their order, of the fields of
  \<open>src\<close> that \<^verbatim>\<open>Add\<close> files under that name and whose own name is neither in the static
  hop-by-hop set nor in the drop set computed from the Connection header of \<open>src\<close>.
  Nothing of a field in either set is appended, and nothing is replaced. (\<^verbatim>\<open>Add\<close> files a
  field under the canonical form of its name, which is the name itself for the header
  collections that \<^verbatim>\<open>net/http\<close> parses.)
\<close>

theorem copyHeaders_appends_kept_fields:
  "index (copyHeaders dst src) name =
     index dst name @
     concat (map snd (filter (\<lambda>(k, vals). CanonicalMIMEHeaderKey k = name \<and>
                                 k \<notin> hopByHopHeaders \<and> k \<notin> dynDropHdrs src) src))"
  by (simp add: copyHeaders_def index_copyLoop)

text \<open>
  For a source whose names are distinct and in canonical form, as in the header collections
  of a parsed request or response: a kept field is appended whole under its own name, and
  a dropped field adds nothing.
\<close>

lemma concat_filter_key:
  assumes "distinct (map fst src)"
  shows "concat (map snd (filter (\<lambda>(k, vals). k = name \<and> P k) src)) =
           (if P name then index src name else [])"
  using assms
proof (induction src)
  case Nil
  then show ?case by (simp add: index_def)
next
  case (Cons kv src)
  obtain k vals where kv: "kv = (k, vals)" by (cases kv)
  from Cons.prems kv have k: "k \<notin> fst ` set src" and d: "distinct (map fst src)"
    by simp_all
  show ?case
  proof (cases "k = name")
    case True
    with k have "filter (\<lambda>(k, vals). k = name \<and> P k) src = []"
      by (force simp: filter_empty_conv)
    with True kv show ?thesis
      by (simp add: index_def)
  next
    case False
    with kv Cons.IH [OF d] show ?thesis
      by (simp add: index_def)
  qed
qed

lemma copyHeaders_canonical_names:
  assumes "distinct (map fst src)"
    and "list_all (\<lambda>(k, vals). CanonicalMIMEHeaderKey k = k) src"
  shows "index (copyHeaders dst src) name =
           index dst name @
           (if name \<notin> hopByHopHeaders \<and> name \<notin> dynDropHdrs src then index src name else [])"
proof -
  from assms(2) have
    "filter (\<lambda>(k, vals). CanonicalMIMEHeaderKey k = name \<and> k \<notin> hopByHopHeaders \<and> k \<notin> dynDropHdrs src) src =
     filter (\<lambda>(k, vals). k = name \<and> (k \<notin> hopByHopHeaders \<and> k \<notin> dynDropHdrs src)) src"
    by (intro filter_cong) (auto simp: list_all_iff)
  with concat_filter_key [OF assms(1), of name "\<lambda>k. k \<notin> hopByHopHeaders \<and> k \<notin> dynDropHdrs src"]
  show ?thesis
    by (simp add: copyHeaders_def index_copyLoop)
qed

lemma copyHeaders_example:
  "copyHeaders [(''Accept'', [''0''])] exampleHeader = [(''Accept'', [''0'', ''4'', ''5''])]"
  by code_simp

text \<open>
  Membership in the drop set is equality of strings: a token of the Connection header
  drops the field whose name is spelled as the token is.
\<close>

lemma copyHeaders_spelling_example:
  "copyHeaders [] [(''Connection'', [''x-foo'']), (''X-Foo'', [''1''])] = [(''X-Foo'', [''1''])]"
  by code_simp

section \<open>The header sanitizer: the dynamic drop set\<close>

lemma tokenPatternClass_eq: "tokenPatternClass = specTokenChar"
  by (rule ext) (auto simp: tokenPatternClass_def specTokenChar_def perl_d_def perl_w_def)

lemma tokenPattern_MatchString_eq: "tokenPattern_MatchString s = specToken s"
  by (simp add: tokenPattern_MatchString_def specToken_def tokenPatternClass_eq)

lemma processParts_eq:
  "processParts d bad parts =
     (d \<union> set (filter specToken (map TrimSpace parts)),
      bad @ filter (\<lambda>t. \<not> specToken t) (map TrimSpace parts))"
  by (induction parts arbitrary: d bad) (auto simp: tokenPattern_MatchString_eq Let_def)

lemma foldl_processConnectionHdr:
  "foldl (\<lambda>d v. fst (processConnectionHdr d v)) d vals =
     d \<union> set (filter specToken (map TrimSpace (concat (map (\<lambda>v. Split v (CHR '','')) vals))))"
  by (induction vals arbitrary: d) (auto simp: processConnectionHdr_def processParts_eq)

text \<open>
  Claim C3. The drop set that \<^verbatim>\<open>copyHeaders\<close> computes is the set of the specification:
  the trimmed comma-separated pieces of the values of the Connection header that match the
  token grammar. One call of \<^verbatim>\<open>processConnectionHdr\<close> adds to the set it is given every
  piece of the value that matches, whatever the other pieces are, and returns the pieces
  that do not match; it has no other outcome.
\<close>

theorem dynDropHdrs_is_specDropSet:
  "dynDropHdrs src = specDropSet src \<and>
   processConnectionHdr d v =
     (d \<union> set (filter specToken (map TrimSpace (Split v (CHR '','')))),
      filter (\<lambda>t. \<not> specToken t) (map TrimSpace (Split v (CHR '',''))))"
proof
  show "dynDropHdrs src = specDropSet src"
    by (simp add: dynDropHdrs_def specDropSet_def specTokens_def index_def connectionHeader_def
        foldl_processConnectionHdr split: option.split)
  show "processConnectionHdr d v =
     (d \<union> set (filter specToken (map TrimSpace (Split v (CHR '','')))),
      filter (\<lambda>t. \<not> specToken t) (map TrimSpace (Split v (CHR '',''))))"
    by (simp add: processConnectionHdr_def processParts_eq)
qed

lemma dynDropHdrs_example: "dynDropHdrs exampleHeader = {''X-Foo'', ''Y''}"
  by code_simp

lemma processConnectionHdr_example:
  "processConnectionHdr {} ''X-Foo, bad tok, Y'' = ({''X-Foo'', ''Y''}, [''bad tok''])"
  by code_simp

section \<open>The CONNECT path\<close>

text \<open>
  Claim C2. When the dial, the write of the destination token and the hijack succeed,
  the handler's writes to the raw client connection before the relay starts are one write
  of the 39 bytes of the acknowledgment, and the handler itself writes nothing else to
  that connection later.
\<close>

theorem handleConnect_acknowledgment:
  assumes "Dial_result w = None" and "WriteTarget_result w = None" and "Hijack_result w = None"
  shows "clientConnWrites (beforeRelay (fst (handleConnect h w resp req))) =
           [''HTTP/1.0 200 Connection established'' @ [CHR 0x0D, CHR 0x0A, CHR 0x0D, CHR 0x0A]] \<and>
         clientConnWrites (fst (handleConnect h w resp req)) =
           [''HTTP/1.0 200 Connection established'' @ [CHR 0x0D, CHR 0x0A, CHR 0x0D, CHR 0x0A]]"
  using assms
  by (simp add: handleConnect_def getConn_def acknowledgment_def Let_def split: option.split)

theorem handleConnect_acknowledgment_witness:
  "Dial_result exampleWorld = None \<and> WriteTarget_result exampleWorld = None \<and>
   Hijack_result exampleWorld = None \<and>
   clientConnWrites (beforeRelay (fst (handleConnect exampleHandler exampleWorld [] exampleConnect))) =
     [''HTTP/1.0 200 Connection established'' @ [CHR 0x0D, CHR 0x0A, CHR 0x0D, CHR 0x0A]]"
proof -
  have a: "Dial_result exampleWorld = None" "WriteTarget_result exampleWorld = None"
      "Hijack_result exampleWorld = None"
    by (simp_all add: exampleWorld_def)
  from handleConnect_acknowledgment [OF a, of exampleHandler "[]" exampleConnect] a
  show ?thesis by simp
qed

text \<open>
  Claim C8. The claim fails on the path where the write of the acknowledgment fails: the
  connection has been hijacked, and the handler then calls \<^verbatim>\<open>resp.WriteHeader\<close>.
\<close>

theorem handleConnect_uses_response_after_hijack:
  "Hijack_result (exampleWorld\<lparr>WriteAck_result := Some ''broken pipe''\<rparr>) = None \<and>
   filter usesResponse (afterHijack (fst (handleConnect exampleHandler
       (exampleWorld\<lparr>WriteAck_result := Some ''broken pipe''\<rparr>) [] exampleConnect))) =
     [RespWriteHeader 500]"
  by code_simp

text \<open>On the path where the acknowledgment is written, the response object is left alone.\<close>

lemma handleConnect_success_no_response_use:
  assumes "Dial_result w = None" and "WriteTarget_result w = None" and "Hijack_result w = None"
    and "WriteAck_result w = None"
  shows "filter usesResponse (afterHijack (fst (handleConnect h w resp req))) = []"
  using assms by (simp add: handleConnect_def getConn_def Let_def)

section \<open>The destination token\<close>

lemma isRcWrite_filter_writesUpstream:
  "filter isRcWrite (filter writesUpstream t) = filter isRcWrite t"
proof -
  have "(isRcWrite e \<and> writesUpstream e) = isRcWrite e" for e
    by (cases e) simp_all
  then show ?thesis
    by (simp add: conj_commute)
qed

lemma isRcWrite_ProxyReqWrite: "filter isRcWrite (map ProxyReqWrite ps) = []"
  by (induction ps) simp_all

lemma processRequest_upstream_writes:
  assumes "Dial_result w = None"
  shows "filter writesUpstream (fst (processRequest h w resp req)) =
           RcWrite (ParseAddr w (if Contains (Host req) (CHR '':'') then Host req
                                 else Host req @ '':80''))
             # map ProxyReqWrite (proxyRequests (fst (processRequest h w resp req)))"
proof (cases "ReadAll_result w")
  case (Pair body err)
  show ?thesis
  proof (cases "WriteTarget_result w")
    case (Some e)
    with assms Pair show ?thesis
      by (simp add: processRequest_def getConn_def)
  next
    case None
    note wt = None
    show ?thesis
    proof (cases "NewRequest_result w")
      case (Some e)
      with assms Pair wt show ?thesis
        by (simp add: processRequest_def getConn_def)
    next
      case None
      note nr = None
      show ?thesis
      proof (cases "WriteRequest_result w")
        case (Some e)
        with assms Pair wt nr show ?thesis
          by (simp add: processRequest_def getConn_def Let_def)
      next
        case None
        with assms Pair wt nr show ?thesis
          by (cases "ReadResponse_result w") (simp_all add: processRequest_def getConn_def Let_def)
      qed
    qed
  qed
qed

lemma handleConnect_upstream_writes:
  assumes "Dial_result w = None"
  shows "filter writesUpstream (fst (handleConnect h w resp req)) =
           RcWrite (ParseAddr w (URLHost req))
             # (if WriteTarget_result w = None \<and> Hijack_result w = None \<and> WriteAck_result w = None
                then [Relay] else [])"
  using assms
  by (cases "WriteTarget_result w"; cases "Hijack_result w"; cases "WriteAck_result w")
    (simp_all add: handleConnect_def getConn_def)

text \<open>
  Claim C5. When the dial succeeds, in either handler, the first call that writes to the
  upstream connection is the write of the encoded destination, and no later call of the
  handler is another \<^verbatim>\<open>rc.Write\<close>: the request (plain path) and the relay (CONNECT
  path) come after the token.
\<close>

theorem token_first_and_once:
  assumes "Dial_result w = None"
  shows "tokenFirstAndOnce (ParseAddr w (URLHost req)) (fst (handleConnect h w resp req)) \<and>
         tokenFirstAndOnce
           (ParseAddr w (if Contains (Host req) (CHR '':'') then Host req else Host req @ '':80''))
           (fst (processRequest h w resp req))"
proof
  show "tokenFirstAndOnce (ParseAddr w (URLHost req)) (fst (handleConnect h w resp req))"
    by (simp add: tokenFirstAndOnce_def handleConnect_upstream_writes [OF assms])
  show "tokenFirstAndOnce
          (ParseAddr w (if Contains (Host req) (CHR '':'') then Host req else Host req @ '':80''))
          (fst (processRequest h w resp req))"
    unfolding tokenFirstAndOnce_def processRequest_upstream_writes [OF assms]
    by (simp add: isRcWrite_ProxyReqWrite)
qed

theorem token_first_and_once_witness:
  "Dial_result exampleWorld = None \<and>
   tokenFirstAndOnce ''example.com:443'' (fst (handleConnect exampleHandler exampleWorld [] exampleConnect)) \<and>
   tokenFirstAndOnce ''example.com:80'' (fst (processRequest exampleHandler exampleWorld [] exampleRequest))"
proof -
  have d: "Dial_result exampleWorld = None"
    by (simp add: exampleWorld_def)
  from token_first_and_once [OF d, of exampleConnect exampleHandler "[]"]
  have 1: "tokenFirstAndOnce ''example.com:443''
             (fst (handleConnect exampleHandler exampleWorld [] exampleConnect))"
    by (simp add: exampleWorld_def exampleConnect_def)
  from token_first_and_once [OF d, of exampleRequest exampleHandler "[]"]
  have 2: "tokenFirstAndOnce ''example.com:80''
             (fst (processRequest exampleHandler exampleWorld [] exampleRequest))"
    by (simp add: exampleWorld_def exampleRequest_def Contains_def)
  from d 1 2 show ?thesis by simp
qed

section \<open>The plain path\<close>

text \<open>
  When the dial succeeds, the one \<^verbatim>\<open>rc.Write\<close> of the plain path writes the encoding
  of the host followed by \<^verbatim>\<open>:80\<close> when the host contains no colon, and the encoding of
  the host as it is when it contains one (as every host with a port does).
\<close>

lemma processRequest_default_port:
  assumes "Dial_result w = None"
  shows "(\<not> Contains (Host req) (CHR '':'') \<longrightarrow>
            filter isRcWrite (fst (processRequest h w resp req)) =
              [RcWrite (ParseAddr w (Host req @ '':80''))]) \<and>
         (Contains (Host req) (CHR '':'') \<longrightarrow>
            filter isRcWrite (fst (processRequest h w resp req)) =
              [RcWrite (ParseAddr w (Host req))])"
proof -
  have "filter isRcWrite (fst (processRequest h w resp req)) =
          filter isRcWrite (filter writesUpstream (fst (processRequest h w resp req)))"
    by (simp only: isRcWrite_filter_writesUpstream)
  also have "\<dots> = [RcWrite (ParseAddr w (if Contains (Host req) (CHR '':'') then Host req
                                           else Host req @ '':80''))]"
    unfolding processRequest_upstream_writes [OF assms]
    by (simp add: isRcWrite_ProxyReqWrite)
  finally show ?thesis
    by simp
qed

lemma processRequest_default_port_example:
  "filter isRcWrite (fst (processRequest exampleHandler exampleWorld [] exampleRequest)) =
     [RcWrite ''example.com:80''] \<and>
   filter isRcWrite (fst (processRequest exampleHandler exampleWorld [] exampleConnect)) =
     [RcWrite ''example.com:443'']"
proof -
  have d: "Dial_result exampleWorld = None"
    by (simp add: exampleWorld_def)
  from processRequest_default_port [OF d, of exampleRequest exampleHandler "[]"]
  have 1: "filter isRcWrite (fst (processRequest exampleHandler exampleWorld [] exampleRequest)) =
             [RcWrite ''example.com:80'']"
    by (simp add: exampleWorld_def exampleRequest_def Contains_def)
  from processRequest_default_port [OF d, of exampleConnect exampleHandler "[]"]
  have 2: "filter isRcWrite (fst (processRequest exampleHandler exampleWorld [] exampleConnect)) =
             [RcWrite ''example.com:443'']"
    by (simp add: exampleWorld_def exampleConnect_def Contains_def)
  from 1 2 show ?thesis by simp
qed

text \<open>
  Claim C6. The claim fails for a host that has no port and contains a colon: the host
  \<^verbatim>\<open>[::1]\<close> of a request for \<^verbatim>\<open>http://[::1]/\<close> is a bracketed IPv6 literal without a
  port, and the handler passes it to the encoder as it is, not with the port 80.
\<close>

theorem processRequest_ipv6_literal_not_defaulted:
  "filter isRcWrite (fst (processRequest exampleHandler exampleWorld []
       (exampleRequest\<lparr>Host := ''[::1]''\<rparr>))) = [RcWrite (ParseAddr exampleWorld ''[::1]'')] \<and>
   ParseAddr exampleWorld ''[::1]'' = ''[::1]'' \<and>
   ParseAddr exampleWorld ''[::1]'' \<noteq> ParseAddr exampleWorld ''[::1]:80''"
  by code_simp

text \<open>
  Claim C4. The claim fails where the write of the destination token fails: the handler
  returns the error and has written no status (the codes written to the client are none).
\<close>

theorem processRequest_token_error_no_status:
  "processRequest exampleHandler (exampleWorld\<lparr>WriteTarget_result := Some ''broken pipe''\<rparr>) []
       exampleRequest =
     ([ReadAll, Dial, RcWrite ''example.com:80'', RcClose, ReqBodyClose], Some ''broken pipe'') \<and>
   statusCodes (fst (processRequest exampleHandler
       (exampleWorld\<lparr>WriteTarget_result := Some ''broken pipe''\<rparr>) [] exampleRequest)) = []"
  by code_simp

text \<open>
  The other errors before the status line, the one of the body read apart, are answered
  with the status 500 and returned; an error of the body copy is returned after the
  status of the upstream response has been written.
\<close>

lemma processRequest_reports_500:
  assumes "Dial_result w = Some e \<or>
           Dial_result w = None \<and> WriteTarget_result w = None \<and>
             (NewRequest_result w = Some e \<or>
              NewRequest_result w = None \<and>
                (WriteRequest_result w = Some e \<or>
                 WriteRequest_result w = None \<and> ReadResponse_result w = Inl e))"
  shows "statusCodes (fst (processRequest h w resp req)) = [500] \<and>
         snd (processRequest h w resp req) = Some e"
  using assms
  by (cases "ReadAll_result w")
    (auto simp: processRequest_def getConn_def Let_def StatusInternalServerError_def)

lemma processRequest_copy_error:
  assumes "Dial_result w = None" and "WriteTarget_result w = None" and "NewRequest_result w = None"
    and "WriteRequest_result w = None" and "ReadResponse_result w = Inr proxyResp"
  shows "statusCodes (fst (processRequest h w resp req)) = [StatusCode proxyResp] \<and>
         snd (processRequest h w resp req) = Copy_result w"
  using assms
  by (cases "ReadAll_result w") (simp add: processRequest_def getConn_def Let_def)

lemma CanonicalMIMEHeaderKey_User_Agent: "CanonicalMIMEHeaderKey ''User-Agent'' = ''User-Agent''"
  by code_simp

lemma processRequest_proxyRequests:
  assumes "Dial_result w = None" and "WriteTarget_result w = None" and "NewRequest_result w = None"
  shows "proxyRequests (fst (processRequest h w resp req)) =
           [\<lparr>proxyReq_Method = Method req, proxyReq_URL = RequestURI req,
             proxyReq_Body = fst (ReadAll_result w),
             proxyReq_Header =
               (if UserAgent h \<noteq> []
                then Add (copyHeaders [] (Header req)) ''User-Agent'' (UserAgent h)
                else copyHeaders [] (Header req))\<rparr>]"
proof (cases "ReadAll_result w")
  case (Pair body err)
  show ?thesis
  proof (cases "WriteRequest_result w")
    case (Some e)
    with assms Pair show ?thesis
      by (simp add: processRequest_def getConn_def Let_def)
  next
    case None
    with assms Pair show ?thesis
      by (cases "ReadResponse_result w") (simp_all add: processRequest_def getConn_def Let_def)
  qed
qed

lemma processRequest_no_proxyRequests:
  assumes "Dial_result w \<noteq> None \<or> WriteTarget_result w \<noteq> None \<or> NewRequest_result w \<noteq> None"
  shows "proxyRequests (fst (processRequest h w resp req)) = []"
proof (cases "ReadAll_result w")
  case (Pair body err)
  show ?thesis
  proof (cases "Dial_result w")
    case (Some e)
    with Pair show ?thesis
      by (simp add: processRequest_def getConn_def)
  next
    case None
    note d = None
    show ?thesis
    proof (cases "WriteTarget_result w")
      case (Some e)
      with Pair d show ?thesis
        by (simp add: processRequest_def getConn_def)
    next
      case None
      with assms d obtain e where "NewRequest_result w = Some e"
        by auto
      with Pair d None show ?thesis
        by (simp add: processRequest_def getConn_def)
    qed
  qed
qed

lemma map_of_Add: "map_of (Add h k v) (CanonicalMIMEHeaderKey k) \<noteq> None"
  by (simp add: Add_def Let_def update_conv')

text \<open>
  With a configured user agent, the header collection of the request object, at the time
  it is written, holds under User-Agent the values that \<^verbatim>\<open>copyHeaders\<close> copied from
  the client request followed by the configured value: the value is added, and the
  values of the client stay in front of it.
\<close>

lemma processRequest_user_agent_header:
  assumes "UserAgent h \<noteq> []" and "Dial_result w = None" and "WriteTarget_result w = None"
    and "NewRequest_result w = None"
  shows "proxyReqHeaderValues ''User-Agent'' (fst (processRequest h w resp req)) =
           [index (copyHeaders [] (Header req)) ''User-Agent'' @ [UserAgent h]]"
  using assms
  by (simp add: proxyReqHeaderValues_def processRequest_proxyRequests index_Add
      CanonicalMIMEHeaderKey_User_Agent)

text \<open>
  What is written upstream as the user agent is the first of these values: the configured
  value when no value of the client was copied, and the first value of the client
  otherwise.
\<close>

lemma writeUserAgent_Add:
  "writeUserAgent (Add hdr ''User-Agent'' ua) =
     (case index hdr ''User-Agent'' @ [ua] of [] \<Rightarrow> None | v # vs \<Rightarrow> if v \<noteq> [] then Some v else None)"
proof -
  have "has (Add hdr ''User-Agent'' ua) ''User-Agent''"
    using map_of_Add [of hdr "''User-Agent''" ua]
    by (simp add: has_def CanonicalMIMEHeaderKey_User_Agent)
  then show ?thesis
    by (simp add: writeUserAgent_def Get_def index_Add CanonicalMIMEHeaderKey_User_Agent
        split: list.split)
qed

lemma processRequest_sentUserAgent:
  assumes "UserAgent h \<noteq> []" and "Dial_result w = None" and "WriteTarget_result w = None"
    and "NewRequest_result w = None"
  shows "sentUserAgent (fst (processRequest h w resp req)) =
           [case index (copyHeaders [] (Header req)) ''User-Agent'' of
              [] \<Rightarrow> Some (UserAgent h)
            | v # vs \<Rightarrow> if v \<noteq> [] then Some v else None]"
  using assms
  by (simp add: sentUserAgent_def processRequest_proxyRequests writeUserAgent_Add
      split: list.split)

lemma processRequest_user_agent_alone_example:
  "sentUserAgent (fst (processRequest exampleHandler exampleWorld []
       (exampleRequest\<lparr>Header := [(''Accept'', [''*/*''])]\<rparr>))) = [Some ''fixed-agent'']"
  by code_simp

text \<open>
  Claim C7. The claim fails for a client request that carries a User-Agent of its own:
  the configured value is added behind the value of the client, and the user agent that
  is written upstream is the value of the client.
\<close>

theorem processRequest_user_agent_not_overwritten:
  "UserAgent exampleHandler = ''fixed-agent'' \<and>
   index (Header exampleRequest) ''User-Agent'' = [''curl/8.0''] \<and>
   proxyReqHeaderValues ''User-Agent''
       (fst (processRequest exampleHandler exampleWorld [] exampleRequest)) =
     [[''curl/8.0'', ''fixed-agent'']] \<and>
   sentUserAgent (fst (processRequest exampleHandler exampleWorld [] exampleRequest)) =
     [Some ''curl/8.0'']"
  by code_simp

text \<open>
  Claim C10. The error of the body read has no effect on what the handler does and
  returns; and whenever the dial, the write of the destination token and the construction
  of the request succeed, the handler forwards one request, whose body is the bytes that
  were read, whatever the error of the read was.
\<close>

theorem processRequest_ignores_body_error:
  "processRequest h (w\<lparr>ReadAll_result := (b, e)\<rparr>) resp req =
     processRequest h (w\<lparr>ReadAll_result := (b, None)\<rparr>) resp req \<and>
   (Dial_result w = None \<and> WriteTarget_result w = None \<and> NewRequest_result w = None \<longrightarrow>
      sentBodies (fst (processRequest h (w\<lparr>ReadAll_result := (b, e)\<rparr>) resp req)) = [b])"
proof
  show "processRequest h (w\<lparr>ReadAll_result := (b, e)\<rparr>) resp req =
          processRequest h (w\<lparr>ReadAll_result := (b, None)\<rparr>) resp req"
    by (simp add: processRequest_def getConn_def Let_def cong: option.case_cong sum.case_cong if_cong)
  show "Dial_result w = None \<and> WriteTarget_result w = None \<and> NewRequest_result w = None \<longrightarrow>
          sentBodies (fst (processRequest h (w\<lparr>ReadAll_result := (b, e)\<rparr>) resp req)) = [b]"
    by (simp add: sentBodies_def processRequest_proxyRequests)
qed

theorem processRequest_ignores_body_error_witness:
  "Dial_result exampleWorld = None \<and> WriteTarget_result exampleWorld = None \<and>
   NewRequest_result exampleWorld = None \<and>
   sentBodies (fst (processRequest exampleHandler
       (exampleWorld\<lparr>ReadAll_result := (''hel'', Some ''unexpected EOF'')\<rparr>) [] exampleRequest)) =
     [''hel''] \<and>
   snd (processRequest exampleHandler
       (exampleWorld\<lparr>ReadAll_result := (''hel'', Some ''unexpected EOF'')\<rparr>) [] exampleRequest) =
     None"
proof -
  have a: "Dial_result exampleWorld = None \<and> WriteTarget_result exampleWorld = None \<and>
      NewRequest_result exampleWorld = None"
    by (simp add: exampleWorld_def)
  have r: "snd (processRequest exampleHandler (exampleWorld\<lparr>ReadAll_result := (''hel'', None)\<rparr>) []
      exampleRequest) = None"
    by (simp add: processRequest_def getConn_def exampleWorld_def exampleResponse_def Let_def)
  from processRequest_ignores_body_error
    [where h = exampleHandler and w = exampleWorld and b = "''hel''"
      and e = "Some ''unexpected EOF''" and resp = "[]" and req = exampleRequest] a
  have eq: "processRequest exampleHandler
        (exampleWorld\<lparr>ReadAll_result := (''hel'', Some ''unexpected EOF'')\<rparr>) [] exampleRequest =
      processRequest exampleHandler (exampleWorld\<lparr>ReadAll_result := (''hel'', None)\<rparr>) []
        exampleRequest"
    and sb: "sentBodies (fst (processRequest exampleHandler
        (exampleWorld\<lparr>ReadAll_result := (''hel'', Some ''unexpected EOF'')\<rparr>) [] exampleRequest)) =
      [''hel'']"
    by blast+
  from r have "snd (processRequest exampleHandler
        (exampleWorld\<lparr>ReadAll_result := (''hel'', Some ''unexpected EOF'')\<rparr>) [] exampleRequest) =
      None"
    by (simp only: eq)
  with a sb show ?thesis
    by blast
qed

lemma processRequest_truncated_body_example:
  "processRequest exampleHandler (exampleWorld\<lparr>ReadAll_result := (''hel'', Some ''unexpected EOF'')\<rparr>)
       [] (exampleRequest\<lparr>Header := []\<rparr>) =
     ([ReadAll, Dial, RcWrite ''example.com:80'', NewRequest,
       ProxyReqWrite \<lparr>proxyReq_Method = ''POST'', proxyReq_URL = ''http://example.com/'',
                      proxyReq_Body = ''hel'',
                      proxyReq_Header = [(''User-Agent'', [''fixed-agent''])]\<rparr>,
       ReadResponse, RespHeader [(''Content-Type'', [''text/html''])], RespWriteHeader 200,
       Copy, CloseRespBody, RcClose, ReqBodyClose], None)"
  by code_simp

section \<open>The relay: every schedule\<close>

lemma relay_inv_init: "relay_inv relay_init"
  by (simp add: relay_inv_def relay_init_def)

lemma transfer_Some:
  "transfer pc r = Some (pc', d) \<Longrightarrow>
     pc \<noteq> NotStarted \<and> pc' \<noteq> NotStarted \<and> pc \<noteq> Finished \<and>
     unfinished pc' = unfinished pc + d"
  by (cases pc) (auto simp: unfinished_def)

lemma relay_inv_step:
  assumes inv: "relay_inv s" and st: "step s a = Some s'"
  shows "relay_inv s'"
proof (cases a)
  case MainTask
  with inv st show ?thesis
    by (cases "pc_main s") (auto simp: relay_inv_def unfinished_def split: if_splits)
next
  case (UpTask r)
  with st obtain pc d where t: "transfer (pc_up s) r = Some (pc, d)"
    and s': "s' = s\<lparr>pc_up := pc, counter := counter s + d\<rparr>"
    by (auto split: option.splits)
  from transfer_Some [OF t] inv s' show ?thesis
    by (cases "pc_main s") (auto simp: relay_inv_def)
next
  case (DownTask r)
  with st obtain pc d where t: "transfer (pc_down s) r = Some (pc, d)"
    and s': "s' = s\<lparr>pc_down := pc, counter := counter s + d\<rparr>"
    by (auto split: option.splits)
  from transfer_Some [OF t] inv s' show ?thesis
    by (cases "pc_main s") (auto simp: relay_inv_def)
qed

lemma relay_inv_run: "relay_inv s \<Longrightarrow> run s sched = Some s' \<Longrightarrow> relay_inv s'"
  by (induction sched arbitrary: s) (auto split: option.splits dest: relay_inv_step)

text \<open>A step of one transfer leaves the other transfer and the handler where they are.\<close>

lemma transfer_step_local:
  "step s (UpTask r) = Some s' \<Longrightarrow> pc_down s' = pc_down s \<and> pc_main s' = pc_main s"
  "step s (DownTask r) = Some s' \<Longrightarrow> pc_up s' = pc_up s \<and> pc_main s' = pc_main s"
  by (auto split: option.splits)

text \<open>
  Claim C9. Whatever the schedule, and whatever \<^verbatim>\<open>io.Copy\<close> returned in either
  transfer, when the handler has returned from the relay both transfers have ended, and
  what it returns is \<^verbatim>\<open>nil\<close>.
\<close>

theorem relay_returns_after_both:
  assumes "run relay_init sched = Some s" and "pc_main s = Returned r"
  shows "pc_up s = Finished \<and> pc_down s = Finished \<and> r = None"
proof -
  from relay_inv_run [OF relay_inv_init assms(1)] have "relay_inv s" .
  with assms(2) show ?thesis
    by (simp add: relay_inv_def)
qed

theorem relay_returns_after_both_witness:
  "run relay_init [MainTask, MainTask, UpTask (Some ''reset''), MainTask, DownTask None,
                   DownTask None, UpTask None, MainTask] =
     Some \<lparr>pc_main = Returned None, pc_up = Finished, pc_down = Finished, counter = 0\<rparr> \<and>
   pc_main \<lparr>pc_main = Returned None, pc_up = Finished, pc_down = Finished, counter = 0\<rparr> =
     Returned None \<and>
   pc_up \<lparr>pc_main = Returned None, pc_up = Finished, pc_down = Finished, counter = 0\<rparr> = Finished \<and>
   pc_down \<lparr>pc_main = Returned None, pc_up = Finished, pc_down = Finished, counter = 0\<rparr> = Finished"
proof -
  have r: "run relay_init [MainTask, MainTask, UpTask (Some ''reset''), MainTask, DownTask None,
                   DownTask None, UpTask None, MainTask] =
     Some \<lparr>pc_main = Returned None, pc_up = Finished, pc_down = Finished, counter = 0\<rparr>"
    by (simp add: relay_init_def)
  have p: "pc_main \<lparr>pc_main = Returned None, pc_up = Finished, pc_down = Finished, counter = 0\<rparr> =
     Returned None"
    by simp
  from relay_returns_after_both [OF r p] r p show ?thesis
    by simp
qed

text \<open>The handler cannot return while a transfer is still copying.\<close>

lemma relay_blocked_example:
  "run relay_init [MainTask, MainTask, UpTask (Some ''reset''), MainTask, UpTask None,
                   DownTask None, MainTask] = None"
  by (simp add: relay_init_def)

end
